theory Spec2Isabelle
  imports Main
begin

section \<open>The Cookie object system of TowardsOO.ipynb\<close>

text \<open>
  The notebook builds a small object system in Python. A \<open>CookieCutter\<close> (the spec's
  Descriptor) owns a name, a dict of operations and its helpers (the spec's delegates);
  a \<open>cookie\<close> (the spec's Instance) is a reference to one cutter together with a dict of
  values. The method \<open>cookie.do\<close> is the spec's \<open>invoke\<close>, \<open>CookieCutter.do\<close> is the
  spec's \<open>dispatch\<close>.

  The embedding is shallow. Python values become the datatype \<open>pyval\<close>, every exception
  that the modelled code can raise becomes a constructor of \<open>error\<close>, a dict becomes a
  map, and the in-place mutation of \<open>cookie._values\<close> becomes explicit passing of the
  value store: a call takes the store and returns its outcome together with the store
  as the call left it, also when the outcome is an exception (Python keeps the
  assignments made before a raise). A string is the list of its code points, and the
  type \<open>char\<close> holds the code points below 256: strings with other code points are
  outside the model. Floats are left out of \<open>pyval\<close>: only the weight of the earlier
  class Cookie2 is one.
\<close>

subsection \<open>Values, exceptions, outcomes\<close>

datatype pyval = PyNone | PyBool bool | PyInt int | PyStr string

text \<open>
  \<open>Exception args\<close> is Python's \<open>Exception(*args)\<close>; the spec's NoSuchOperationError
  is \<open>Exception("no such operation", op)\<close>. \<open>KeyError k\<close> is what a dict raises when
  subscripted with a missing key \<open>k\<close>: on \<open>cookie._values\<close> it is the spec's
  NoSuchPropertyError, on the helpers dict of the parametric cutter it is the spec's
  NoSuchModeError. \<open>IndexError\<close> is raised by \<open>args[0]\<close> on an empty argument tuple,
  \<open>TypeError\<close> by a call with the wrong number of arguments and by subscripting a list
  with a string, \<open>RecursionError\<close> by a call that would nest deeper than the interpreter's
  recursion limit allows.
\<close>

datatype error =
  Exception "string list" | KeyError string | IndexError | TypeError | RecursionError

type_synonym store = "string \<rightharpoonup> pyval"

type_synonym outcome = "(error + pyval) \<times> store"

subsection \<open>Strings\<close>

definition startswith :: "string \<Rightarrow> string \<Rightarrow> bool" where
  "startswith s p = (take (length p) s = p)"

text \<open>
  Python's \<open>str.lower\<close> on code points below 256: the letters A to Z and the letters
  from U+00C0 to U+00DE, the sign U+00D7 apart, move up by 32; every other code point
  stays.
\<close>

definition lower_char :: "char \<Rightarrow> char" where
  "lower_char c =
     (let n = (of_char c :: nat)
      in if (65 \<le> n \<and> n \<le> 90) \<or> (192 \<le> n \<and> n \<le> 222 \<and> n \<noteq> 215)
         then char_of (n + 32) else c)"

definition lower :: "string \<Rightarrow> string" where
  "lower s = map lower_char s"

text \<open>Python's \<open>str\<close> of a value, as \<open>str(30)\<close> and the f-strings of the notebook use it.\<close>

definition digit_char :: "nat \<Rightarrow> char" where
  "digit_char d = char_of (48 + d)"

fun str_nat :: "nat \<Rightarrow> string" where
  "str_nat n = (if n < 10 then [digit_char n] else str_nat (n div 10) @ [digit_char (n mod 10)])"

declare str_nat.simps [simp del]

definition str_int :: "int \<Rightarrow> string" where
  "str_int i = (if i < 0 then CHR ''-'' # str_nat (nat (- i)) else str_nat (nat i))"

fun str :: "pyval \<Rightarrow> string" where
  "str PyNone = ''None''"
| "str (PyBool b) = (if b then ''True'' else ''False'')"
| "str (PyInt i) = str_int i"
| "str (PyStr s) = s"

subsection \<open>The cutter with helpers (inheritance)\<close>

text \<open>
  An operation is a Python callable \<open>f(cookie, *args)\<close>. What it receives as \<open>cookie\<close>
  is modelled by the two things the notebook's operations do with it: call
  \<open>cookie.do(op, *args)\<close> and format it with \<open>str(cookie)\<close>. The store is passed in and
  out explicitly. The result \<open>None\<close> is for an operation whose body never returns (a
  loop without end); recursion without end is not such a case, it ends in RecursionError.
\<close>

record self =
  self_do :: "string \<Rightarrow> pyval list \<Rightarrow> store \<Rightarrow> outcome option"
  self_str :: string

type_synonym operation = "self \<Rightarrow> pyval list \<Rightarrow> store \<Rightarrow> outcome option"

text \<open>
  \<^verbatim>\<open>
  class CookieCutter:
      def __init__(self, name, operations, helpers):
          self._name = name
          self._operations = operations
          self._helpers = helpers
  \<close>
  The helpers are a finite tree here: the constructor cannot build a cutter that is its
  own helper.
\<close>

datatype CookieCutter =
  CookieCutter (name: string) (operations: "string \<rightharpoonup> operation") (helpers: "CookieCutter list")

text \<open>
  \<^verbatim>\<open>
      def do(self, cookie, op, *args):
          if not op in self._operations:
              for helper in self._helpers:
                  try:
                      return helper.do(cookie, op, *args)
                  except:
                      pass
              raise Exception("no such operation", op)
          return self._operations[op](cookie, *args)
  \<close>
  \<open>for_helpers\<close> is the \<open>for\<close> loop with the \<open>raise\<close> that follows it. The bare
  \<open>except\<close> catches every exception, RecursionError among them; the store keeps what
  the failed helper wrote.
\<close>

fun CookieCutter_do :: "CookieCutter \<Rightarrow> self \<Rightarrow> string \<Rightarrow> pyval list \<Rightarrow> store \<Rightarrow> outcome option"
  and for_helpers :: "CookieCutter list \<Rightarrow> self \<Rightarrow> string \<Rightarrow> pyval list \<Rightarrow> store \<Rightarrow> outcome option"
where
  "CookieCutter_do (CookieCutter nm ops hs) cookie op args vals =
     (case ops op of
        None \<Rightarrow> for_helpers hs cookie op args vals
      | Some f \<Rightarrow> f cookie args vals)"
| "for_helpers [] cookie op args vals =
     Some (Inl (Exception [''no such operation'', op]), vals)"
| "for_helpers (helper # hs) cookie op args vals =
     (case CookieCutter_do helper cookie op args vals of
        None \<Rightarrow> None
      | Some (Inr v, vals') \<Rightarrow> Some (Inr v, vals')
      | Some (Inl e, vals') \<Rightarrow> for_helpers hs cookie op args vals')"

text \<open>
  \<^verbatim>\<open>
      def printCookie(self):
          return self._name + " cookie"
  \<close>
\<close>

definition printCookie :: "CookieCutter \<Rightarrow> string" where
  "printCookie c = name c @ '' cookie''"

text \<open>
  \<^verbatim>\<open>
  class cookie:
      def __str__(self):
          return self._cutter.printCookie()
      def __init__(self, cutter, attr):
          self._cutter = cutter
          self._values = attr
      def do(self, op, *args):
          if op.startswith("set"):
              self._values[op[3:].lower()] = args[0]
          elif op.startswith("get"):
              return self._values[op[3:].lower()]
          else:
              return self._cutter.do(self, op)
  \<close>
  A cookie is the pair of its cutter and its store. An operation can call back into
  \<open>cookie.do\<close>, so the recursion goes through arbitrary operations. The first argument
  of \<open>cookie_do\<close> is the depth that the interpreter's recursion limit leaves: \<open>cookie_do n\<close>
  has room for \<open>n\<close> nested calls of \<open>cookie.do\<close>, and the call that would go deeper
  raises RecursionError, as Python does, with the store untouched. The depth is counted
  in calls of \<open>cookie.do\<close>; the frames of \<open>CookieCutter.do\<close> and of the operation that
  belong to such a call are taken to fit with it. The last branch passes no arguments
  on, as the source does.
\<close>

fun cookie_do :: "nat \<Rightarrow> CookieCutter \<Rightarrow> string \<Rightarrow> pyval list \<Rightarrow> store \<Rightarrow> outcome option" where
  "cookie_do 0 cutter op args vals = Some (Inl RecursionError, vals)"
| "cookie_do (Suc n) cutter op args vals =
     (if startswith op ''set'' then
        (case args of
           [] \<Rightarrow> Some (Inl IndexError, vals)
         | a # _ \<Rightarrow> Some (Inr PyNone, vals(lower (drop 3 op) \<mapsto> a)))
      else if startswith op ''get'' then
        (case vals (lower (drop 3 op)) of
           None \<Rightarrow> Some (Inl (KeyError (lower (drop 3 op))), vals)
         | Some v \<Rightarrow> Some (Inr v, vals))
      else CookieCutter_do cutter
             \<lparr>self_do = (\<lambda>op' args' vals'. cookie_do n cutter op' args' vals'),
              self_str = printCookie cutter\<rparr>
             op [] vals)"

text \<open>
  \<^verbatim>\<open>
  def bake_macadamia(cookie):
      if cookie.do("getColor") == "white":
          return str(30)
      else:
          return str(100)

  def contemplate(cookie):
      return f"I am looking at a delicious {cookie}, baked at {cookie.do('bake')}. Temptation is strong."

  nutsCookieCutter = CookieCutter("NutsCookie", {"contemplate": contemplate}, [])
  macadamiaCookieCutter = CookieCutter("MacadamiaCookie", {"bake": bake_macadamia}, [nutsCookieCutter])
  \<close>
  Both functions take the cookie only; a call with further arguments raises TypeError
  before the body runs.
\<close>

definition bake_macadamia :: operation where
  "bake_macadamia cookie args vals =
     (if args \<noteq> [] then Some (Inl TypeError, vals)
      else case self_do cookie ''getColor'' [] vals of
             None \<Rightarrow> None
           | Some (Inl e, vals') \<Rightarrow> Some (Inl e, vals')
           | Some (Inr v, vals') \<Rightarrow>
               if v = PyStr ''white'' then Some (Inr (PyStr (str (PyInt 30))), vals')
               else Some (Inr (PyStr (str (PyInt 100))), vals'))"

definition contemplate :: operation where
  "contemplate cookie args vals =
     (if args \<noteq> [] then Some (Inl TypeError, vals)
      else case self_do cookie ''bake'' [] vals of
             None \<Rightarrow> None
           | Some (Inl e, vals') \<Rightarrow> Some (Inl e, vals')
           | Some (Inr v, vals') \<Rightarrow>
               Some (Inr (PyStr (''I am looking at a delicious '' @ self_str cookie
                                 @ '', baked at '' @ str v @ ''. Temptation is strong.'')), vals'))"

definition nutsCookieCutter :: CookieCutter where
  "nutsCookieCutter = CookieCutter ''NutsCookie'' [''contemplate'' \<mapsto> contemplate] []"

definition macadamiaCookieCutter :: CookieCutter where
  "macadamiaCookieCutter =
     CookieCutter ''MacadamiaCookie'' [''bake'' \<mapsto> bake_macadamia] [nutsCookieCutter]"

text \<open>
  What an operation receives as \<open>cookie\<close> when \<open>cookie.do\<close>, at depth \<open>Suc n\<close>,
  hands the call to the cutter.
\<close>

definition cookie_self :: "nat \<Rightarrow> CookieCutter \<Rightarrow> self" where
  "cookie_self n cutter =
     \<lparr>self_do = (\<lambda>op args vals. cookie_do n cutter op args vals),
      self_str = printCookie cutter\<rparr>"

text \<open>
  The spec speaks of an operation that is neither in the own table of a cutter nor
  resolvable by its helpers. \<open>defines_op\<close> is the predicate for that: a cutter defines
  an operation when its own table has it or, recursively, one of its helpers defines it.
\<close>

fun defines_op :: "CookieCutter \<Rightarrow> string \<Rightarrow> bool" where
  "defines_op (CookieCutter nm ops hs) op = (ops op \<noteq> None \<or> list_ex (\<lambda>h. defines_op h op) hs)"


subsection \<open>The parametric cutter\<close>

text \<open>
  The last cell of the notebook redefines both classes. \<open>cookie.do\<close> takes the mood
  after the operation name, and the helpers of a cutter are subscripted with the mood:
  \<^verbatim>\<open>
  class cookie:
      def do(self, op, mood, *args):
          if op.startswith("set"):
              self._values[op[3:].lower()] = args[0]
          elif op.startswith("get"):
              return self._values[op[3:].lower()]
          else:
              return self._cutter.do(self, mood, op)

  class CookieCutter:
      def do(self, cookie, mood, op, *args):
          if not op in self._operations:
              return self._helpers[mood].do(cookie, mood, op, *args)
          return self._operations[op](cookie, *args)
  \<close>
  The notebook passes as helpers a dict from moods to cutters, and the list \<open>[]\<close> for a
  cutter without helpers. Both are kept: \<open>Inl\<close> holds a list, \<open>Inr\<close> the items of a
  dict (with distinct keys). A mood is a string; subscripting a list with a string raises
  TypeError, subscripting a dict with a missing key raises KeyError.
\<close>

record self_p =
  self_do_p :: "string \<Rightarrow> string \<Rightarrow> pyval list \<Rightarrow> store \<Rightarrow> outcome option"
  self_str_p :: string

type_synonym operation_p = "self_p \<Rightarrow> pyval list \<Rightarrow> store \<Rightarrow> outcome option"

datatype CookieCutter_p =
  CookieCutter_p (name_p: string) (operations_p: "string \<rightharpoonup> operation_p")
    (helpers_p: "CookieCutter_p list + (string \<times> CookieCutter_p) list")

function CookieCutter_do_p ::
  "CookieCutter_p \<Rightarrow> self_p \<Rightarrow> string \<Rightarrow> string \<Rightarrow> pyval list \<Rightarrow> store \<Rightarrow> outcome option"
where
  "CookieCutter_do_p (CookieCutter_p nm ops hs) cookie mood op args vals =
     (case ops op of
        None \<Rightarrow>
          (case hs of
             Inl l \<Rightarrow> Some (Inl TypeError, vals)
           | Inr d \<Rightarrow>
               (case map_of d mood of
                  None \<Rightarrow> Some (Inl (KeyError mood), vals)
                | Some helper \<Rightarrow> CookieCutter_do_p helper cookie mood op args vals))
      | Some f \<Rightarrow> f cookie args vals)"
  by pat_completeness auto
termination
proof (relation "measure (\<lambda>(c, _). size c)")
  show "wf (measure (\<lambda>(c :: CookieCutter_p, _ :: self_p \<times> string \<times> string \<times> pyval list \<times> store). size c))"
    by simp
next
  fix nm :: string and ops :: "string \<rightharpoonup> operation_p"
    and hs :: "CookieCutter_p list + (string \<times> CookieCutter_p) list"
    and cookie :: self_p and mood op :: string and args :: "pyval list" and vals :: store
    and d :: "(string \<times> CookieCutter_p) list" and helper :: CookieCutter_p
  assume "hs = Inr d" and found: "map_of d mood = Some helper"
  have "map_of d mood = Some helper \<longrightarrow> size helper < Suc (size_list (size_prod (\<lambda>_. 0) size) d)"
    by (induction d) auto
  with found \<open>hs = Inr d\<close>
  show "((helper, cookie, mood, op, args, vals), CookieCutter_p nm ops hs, cookie, mood, op, args, vals)
          \<in> measure (\<lambda>(c, _). size c)"
    by simp
qed

definition printCookie_p :: "CookieCutter_p \<Rightarrow> string" where
  "printCookie_p c = name_p c @ '' cookie''"

fun cookie_do_p ::
  "nat \<Rightarrow> CookieCutter_p \<Rightarrow> string \<Rightarrow> string \<Rightarrow> pyval list \<Rightarrow> store \<Rightarrow> outcome option"
where
  "cookie_do_p 0 cutter op mood args vals = Some (Inl RecursionError, vals)"
| "cookie_do_p (Suc n) cutter op mood args vals =
     (if startswith op ''set'' then
        (case args of
           [] \<Rightarrow> Some (Inl IndexError, vals)
         | a # _ \<Rightarrow> Some (Inr PyNone, vals(lower (drop 3 op) \<mapsto> a)))
      else if startswith op ''get'' then
        (case vals (lower (drop 3 op)) of
           None \<Rightarrow> Some (Inl (KeyError (lower (drop 3 op))), vals)
         | Some v \<Rightarrow> Some (Inr v, vals))
      else CookieCutter_do_p cutter
             \<lparr>self_do_p = (\<lambda>op' mood' args' vals'. cookie_do_p n cutter op' mood' args' vals'),
              self_str_p = printCookie_p cutter\<rparr>
             mood op [] vals)"

definition cookie_self_p :: "nat \<Rightarrow> CookieCutter_p \<Rightarrow> self_p" where
  "cookie_self_p n cutter =
     \<lparr>self_do_p = (\<lambda>op mood args vals. cookie_do_p n cutter op mood args vals),
      self_str_p = printCookie_p cutter\<rparr>"

text \<open>
  \<^verbatim>\<open>
  def contemplate(cookie):
      return f"I am looking at a delicious {cookie}. Temptation is strong."

  def succumb(cookie):
      return f"I was looking at a delicious {cookie}. Temptation was too strong."

  beachbodyNutsCookieCutter = CookieCutter("NutsCookie", {"contemplate": contemplate}, [])
  honestNutsCookieCutter = CookieCutter("NutsCookie", {"contemplate": succumb}, [])
  macadamiaCookieCutter = CookieCutter("MacadamiaCookie", {},
      {"beachbody": beachbodyNutsCookieCutter, "honest": honestNutsCookieCutter})
  \<close>
\<close>

definition contemplate_p :: operation_p where
  "contemplate_p cookie args vals =
     (if args \<noteq> [] then Some (Inl TypeError, vals)
      else Some (Inr (PyStr (''I am looking at a delicious '' @ self_str_p cookie
                             @ ''. Temptation is strong.'')), vals))"

definition succumb :: operation_p where
  "succumb cookie args vals =
     (if args \<noteq> [] then Some (Inl TypeError, vals)
      else Some (Inr (PyStr (''I was looking at a delicious '' @ self_str_p cookie
                             @ ''. Temptation was too strong.'')), vals))"

definition beachbodyNutsCookieCutter :: CookieCutter_p where
  "beachbodyNutsCookieCutter =
     CookieCutter_p ''NutsCookie'' [''contemplate'' \<mapsto> contemplate_p] (Inl [])"

definition honestNutsCookieCutter :: CookieCutter_p where
  "honestNutsCookieCutter =
     CookieCutter_p ''NutsCookie'' [''contemplate'' \<mapsto> succumb] (Inl [])"

definition macadamiaCookieCutter_p :: CookieCutter_p where
  "macadamiaCookieCutter_p =
     CookieCutter_p ''MacadamiaCookie'' Map.empty
       (Inr [(''beachbody'', beachbodyNutsCookieCutter), (''honest'', honestNutsCookieCutter)])"

subsection \<open>Example inputs\<close>

text \<open>
  The stores \<open>{}\<close>, \<open>{"color": "white"}\<close>, \<open>{"color": "dark"}\<close> (the notebook's
  noonCookie and midnightCookie) and \<open>{"Color": "white"}\<close>.
\<close>

definition no_values :: store where
  "no_values = Map.empty"

definition white_values :: store where
  "white_values = [''color'' \<mapsto> PyStr ''white'']"

definition dark_values :: store where
  "dark_values = [''color'' \<mapsto> PyStr ''dark'']"

definition capital_values :: store where
  "capital_values = [''Color'' \<mapsto> PyStr ''white'']"

text \<open>
  \<^verbatim>\<open>
  def answer_a(cookie): return "a"
  def answer_b(cookie): return "b"
  def broken(cookie): return cookie.do("getMissing")
  def again(cookie): return cookie.do("x")
  def echo(cookie, x): return x
  def getX(cookie): return "from the table"
  \<close>
\<close>

definition answer_a :: operation where
  "answer_a cookie args vals =
     (if args \<noteq> [] then Some (Inl TypeError, vals) else Some (Inr (PyStr ''a''), vals))"

definition answer_b :: operation where
  "answer_b cookie args vals =
     (if args \<noteq> [] then Some (Inl TypeError, vals) else Some (Inr (PyStr ''b''), vals))"


definition again :: operation where
  "again cookie args vals =
     (if args \<noteq> [] then Some (Inl TypeError, vals) else self_do cookie ''x'' [] vals)"

definition echo :: operation where
  "echo cookie args vals =
     (case args of [x] \<Rightarrow> Some (Inr x, vals) | _ \<Rightarrow> Some (Inl TypeError, vals))"

definition getX :: operation where
  "getX cookie args vals =
     (if args \<noteq> [] then Some (Inl TypeError, vals)
      else Some (Inr (PyStr ''from the table''), vals))"

text \<open>
  \<^verbatim>\<open>
  plainCutter = CookieCutter("Plain", {}, [])
  cutterA = CookieCutter("A", {"x": answer_a}, [])
  cutterB = CookieCutter("B", {"x": answer_b}, [])
  cutterD = CookieCutter("D", {}, [cutterA, cutterB])
  brokenCutter = CookieCutter("Broken", {"x": broken}, [])
  cutterE = CookieCutter("E", {}, [brokenCutter, cutterB])
  loopCutter = CookieCutter("Loop", {"x": again}, [])
  cutterF = CookieCutter("F", {}, [plainCutter, loopCutter, cutterB])
  echoCutter = CookieCutter("Echo", {"echo": echo}, [])
  getXCutter = CookieCutter("GetX", {"getX": getX}, [])
  \<close>
\<close>

definition plainCutter :: CookieCutter where
  "plainCutter = CookieCutter ''Plain'' Map.empty []"

definition cutterA :: CookieCutter where
  "cutterA = CookieCutter ''A'' [''x'' \<mapsto> answer_a] []"

definition cutterB :: CookieCutter where
  "cutterB = CookieCutter ''B'' [''x'' \<mapsto> answer_b] []"

definition cutterD :: CookieCutter where
  "cutterD = CookieCutter ''D'' Map.empty [cutterA, cutterB]"



definition loopCutter :: CookieCutter where
  "loopCutter = CookieCutter ''Loop'' [''x'' \<mapsto> again] []"

definition cutterF :: CookieCutter where
  "cutterF = CookieCutter ''F'' Map.empty [plainCutter, loopCutter, cutterB]"

definition echoCutter :: CookieCutter where
  "echoCutter = CookieCutter ''Echo'' [''echo'' \<mapsto> echo] []"

definition getXCutter :: CookieCutter where
  "getXCutter = CookieCutter ''GetX'' [''getX'' \<mapsto> getX] []"

text \<open>
  For the parametric classes:
  \<^verbatim>\<open>
  localCutter = CookieCutter("Local", {"contemplate": contemplate}, {"honest": honestNutsCookieCutter})
  \<close>
\<close>

definition localCutter :: CookieCutter_p where
  "localCutter =
     CookieCutter_p ''Local'' [''contemplate'' \<mapsto> contemplate_p]
       (Inr [(''honest'', honestNutsCookieCutter)])"

section \<open>Strings and evaluation\<close>

lemmas string_eval =
  startswith_def lower_def lower_char_def
  str_int_def str_nat.simps digit_char_def char_of_def bit_0

lemma startswith_append [simp]: "startswith (p @ s) p"
  by (simp add: startswith_def)

lemma get_not_set: "startswith op ''get'' \<Longrightarrow> \<not> startswith op ''set''"
  by (auto simp: startswith_def)

section \<open>Dispatch through the helpers\<close>




lemma not_defined_raises:
  "\<not> defines_op c op \<Longrightarrow>
     CookieCutter_do c cookie op args vals
       = Some (Inl (Exception [''no such operation'', op]), vals)"
  "\<not> list_ex (\<lambda>h. defines_op h op) hs \<Longrightarrow>
     for_helpers hs cookie op args vals
       = Some (Inl (Exception [''no such operation'', op]), vals)"
  by (induction c cookie op args vals and hs cookie op args vals
      rule: CookieCutter_do_for_helpers.induct) auto

text \<open>
  The same exception comes out when helpers do have the operation but every attempt on a
  helper raises, from whatever store it starts.
\<close>

lemma all_helpers_fail:
  "(\<And>h s. h \<in> set hs \<Longrightarrow> \<exists>e s'. CookieCutter_do h cookie op args s = Some (Inl e, s')) \<Longrightarrow>
     \<exists>s'. for_helpers hs cookie op args vals
             = Some (Inl (Exception [''no such operation'', op]), s')"
proof (induction hs arbitrary: vals)
  case Nil
  show ?case by simp
next
  case (Cons h hs)
  from Cons.prems [of h vals] obtain e s1
    where h: "CookieCutter_do h cookie op args vals = Some (Inl e, s1)"
    by auto
  have "\<exists>s'. for_helpers hs cookie op args s1
               = Some (Inl (Exception [''no such operation'', op]), s')"
    by (rule Cons.IH) (simp add: Cons.prems)
  with h show ?case by simp
qed

text \<open>
  C2: when neither the own table of \<open>D\<close> nor the table of any cutter reachable through
  helpers has \<open>op\<close> (so also when \<open>D\<close> has no helpers), \<open>CookieCutter.do\<close> raises
  \<open>Exception("no such operation", op)\<close>, the spec's NoSuchOperationError, and the store
  is as before; \<open>cookie.do\<close> with a name that begins with neither "set" nor "get" raises
  the same.
\<close>

theorem no_such_operation:
  "\<not> defines_op D op \<Longrightarrow>
     CookieCutter_do D cookie op args vals
       = Some (Inl (Exception [''no such operation'', op]), vals) \<and>
     (\<not> startswith op ''set'' \<and> \<not> startswith op ''get'' \<longrightarrow>
        cookie_do (Suc n) D op args vals
          = Some (Inl (Exception [''no such operation'', op]), vals))"
  by (simp add: not_defined_raises)

theorem no_such_operation_witness:
  "\<not> defines_op cutterD ''bake'' \<and> \<not> defines_op plainCutter ''bake'' \<and>
   \<not> startswith ''bake'' ''set'' \<and> \<not> startswith ''bake'' ''get'' \<and>
   cookie_do (Suc 0) cutterD ''bake'' [] no_values
     = Some (Inl (Exception [''no such operation'', ''bake'']), no_values) \<and>
   cookie_do (Suc 0) plainCutter ''bake'' [] no_values
     = Some (Inl (Exception [''no such operation'', ''bake'']), no_values)"
proof -
  have h1: "\<not> defines_op cutterD ''bake''"
    by (simp add: cutterD_def cutterA_def cutterB_def)
  have h2: "\<not> defines_op plainCutter ''bake''"
    by (simp add: plainCutter_def)
  have h3: "\<not> startswith ''bake'' ''set'' \<and> \<not> startswith ''bake'' ''get''"
    by (simp add: startswith_def)
  from no_such_operation [OF h1, of _ "[]" no_values 0]
    no_such_operation [OF h2, of _ "[]" no_values 0]
  show ?thesis
    using h1 h2 h3 by simp
qed




text \<open>
  The recursion of cutterF is cut short at every depth: the innermost call of
  \<open>cookie.do("x")\<close> raises RecursionError, the loop around it drops the exception and
  asks cutterB, and "b" is handed back through all the calls.
\<close>

lemma recursion_error_is_swallowed:
  "cookie_do (Suc n) cutterF ''x'' [] vals = Some (Inr (PyStr ''b''), vals)"
proof (induction n)
  case 0
  show ?case
    by (simp add: cutterF_def plainCutter_def loopCutter_def cutterB_def again_def answer_b_def
        startswith_def)
next
  case (Suc n)
  have "cookie_do (Suc (Suc n)) cutterF ''x'' [] vals
          = CookieCutter_do cutterF (cookie_self (Suc n) cutterF) ''x'' [] vals"
    unfolding cookie_self_def
    by (subst cookie_do.simps) (simp add: startswith_def del: cookie_do.simps)
  also have "\<dots> = Some (Inr (PyStr ''b''), vals)"
    using Suc.IH
    by (simp add: cutterF_def plainCutter_def loopCutter_def again_def cookie_self_def
        del: cookie_do.simps)
  finally show ?case .
qed

section \<open>Accessors\<close>

text \<open>
  The claim C3 as written fails for a key with an upper-case letter: the store
  \<open>{"Color": "white"}\<close> declares the key "Color"; in Python "get" + "Color".capitalize()
  is "getColor", and \<open>cookie.do("getColor")\<close> reads the key "color" and raises KeyError.
\<close>

theorem get_capitalized_key_fails:
  "capital_values ''Color'' = Some (PyStr ''white'') \<and>
   cookie_do (Suc 0) plainCutter ''getColor'' [] capital_values
     = Some (Inl (KeyError ''color''), capital_values) \<and>
   cookie_do (Suc 0) plainCutter ''getColor'' [] capital_values
     \<noteq> Some (Inr (PyStr ''white''), capital_values)"
  by (simp add: capital_values_def string_eval)

text \<open>
  C3, amended. Python's \<open>str.capitalize\<close> is no part of the source and is not modelled:
  \<open>S\<close> stands for capitalize(K), and the statement holds of every string \<open>S\<close>. For a
  store that declares the key \<open>K\<close> with value \<open>V\<close>, the call of "get" + S returns \<open>V\<close>
  provided the lower-cased \<open>S\<close> is \<open>K\<close> again; the call of "set" + S with \<open>V2\<close>
  returns None and writes the key \<open>lower S\<close>, and the same "get" that follows returns
  \<open>V2\<close>.
\<close>

theorem accessor_round_trip:
  "vals K = Some V \<Longrightarrow>
     (lower S = K \<longrightarrow>
        cookie_do (Suc n) cutter (''get'' @ S) [] vals = Some (Inr V, vals)) \<and>
     cookie_do (Suc n) cutter (''set'' @ S) [V2] vals
       = Some (Inr PyNone, vals(lower S \<mapsto> V2)) \<and>
     cookie_do (Suc n) cutter (''get'' @ S) [] (vals(lower S \<mapsto> V2))
       = Some (Inr V2, vals(lower S \<mapsto> V2))"
  by (simp add: startswith_def)

theorem accessor_round_trip_witness:
  "white_values ''color'' = Some (PyStr ''white'') \<and> lower ''Color'' = ''color'' \<and>
   cookie_do (Suc 0) plainCutter ''getColor'' [] white_values
     = Some (Inr (PyStr ''white''), white_values) \<and>
   cookie_do (Suc 0) plainCutter ''setColor'' [PyStr ''dark''] white_values
     = Some (Inr PyNone, dark_values) \<and>
   cookie_do (Suc 0) plainCutter ''getColor'' [] dark_values
     = Some (Inr (PyStr ''dark''), dark_values)"
proof -
  have h: "white_values ''color'' = Some (PyStr ''white'')"
    by (simp add: white_values_def)
  have l: "lower ''Color'' = ''color''"
    by (simp add: string_eval)
  have u: "white_values(''color'' \<mapsto> PyStr ''dark'') = dark_values"
    by (simp add: white_values_def dark_values_def)
  from accessor_round_trip [where vals = white_values and K = "''color''" and V = "PyStr ''white''"
      and S = "''Color''" and n = 0 and cutter = plainCutter and ?V2.0 = "PyStr ''dark''"]
  show ?thesis
    using h l u by (simp del: cookie_do.simps)
qed

text \<open>
  The claim C4 as written fails: on the empty store, "setColor" with one argument raises
  nothing, returns None and leaves the store \<open>{"color": "white"}\<close>, with a key that was
  not there before.
\<close>

theorem set_on_missing_key_succeeds:
  "no_values ''color'' = None \<and>
   cookie_do (Suc 0) plainCutter ''setColor'' [PyStr ''white''] no_values
     = Some (Inr PyNone, white_values) \<and>
   white_values ''color'' = Some (PyStr ''white'') \<and>
   white_values \<noteq> no_values"
proof -
  have "white_values ''color'' \<noteq> no_values ''color''"
    by (simp add: white_values_def no_values_def)
  then have "white_values \<noteq> no_values" by metis
  then show ?thesis
    by (simp add: white_values_def no_values_def string_eval)
qed

text \<open>
  C4, amended: a call of \<open>cookie.do\<close> with a name that begins with "set" and at least
  one argument returns None and stores the first argument under the lower-cased rest of
  the name, whether or not the store had that key; with no argument it raises IndexError
  and the store is unchanged.
\<close>

theorem set_creates_key:
  "startswith op ''set'' \<Longrightarrow>
     cookie_do (Suc n) cutter op (a # rest) vals
       = Some (Inr PyNone, vals(lower (drop 3 op) \<mapsto> a)) \<and>
     cookie_do (Suc n) cutter op [] vals = Some (Inl IndexError, vals)"
  by simp

theorem set_creates_key_witness:
  "startswith ''setWeight'' ''set'' \<and> dark_values ''weight'' = None \<and>
   cookie_do (Suc 0) getXCutter ''setWeight'' [PyInt 3, PyInt 4] dark_values
     = Some (Inr PyNone, dark_values(''weight'' \<mapsto> PyInt 3)) \<and>
   cookie_do (Suc 0) getXCutter ''setWeight'' [] dark_values = Some (Inl IndexError, dark_values)"
proof -
  have h: "startswith ''setWeight'' ''set''"
    by (simp add: startswith_def)
  have k: "lower (drop 3 ''setWeight'') = ''weight''"
    by (simp add: string_eval)
  have m: "dark_values ''weight'' = None"
    by (simp add: dark_values_def)
  from set_creates_key [OF h, of 0 getXCutter "PyInt 3" "[PyInt 4]" dark_values] show ?thesis
    using h k m by simp
qed

text \<open>
  C5: an operation name that begins with "get" or "set" is served by the accessor branch
  of \<open>cookie.do\<close> before any operation table is looked at. The outcome is the same
  whatever the cutter is, and a "get" on a key that the store lacks raises KeyError (the
  spec's NoSuchPropertyError) even when the cutter's own table has an operation of that
  very name, which therefore cannot be reached through \<open>cookie.do\<close>.
\<close>

theorem accessor_before_operations:
  "startswith op ''get'' \<or> startswith op ''set'' \<Longrightarrow>
     cookie_do (Suc n) cutter op args vals = cookie_do (Suc n) cutter' op args vals \<and>
     (startswith op ''get'' \<and> vals (lower (drop 3 op)) = None \<and> operations cutter op = Some f \<longrightarrow>
        cookie_do (Suc n) cutter op args vals = Some (Inl (KeyError (lower (drop 3 op))), vals))"
  by (auto dest: get_not_set)

theorem accessor_before_operations_witness:
  "startswith ''getX'' ''get'' \<and> no_values (lower (drop 3 ''getX'')) = None \<and>
   operations getXCutter ''getX'' = Some getX \<and>
   cookie_do (Suc 0) getXCutter ''getX'' [] no_values
     = cookie_do (Suc 0) plainCutter ''getX'' [] no_values \<and>
   cookie_do (Suc 0) getXCutter ''getX'' [] no_values = Some (Inl (KeyError ''x''), no_values)"
proof -
  have h: "startswith ''getX'' ''get'' \<or> startswith ''getX'' ''set''"
    by (simp add: startswith_def)
  have k: "lower (drop 3 ''getX'') = ''x''"
    by (simp add: string_eval)
  from accessor_before_operations [OF h, of 0 getXCutter "[]" no_values plainCutter getX]
  show ?thesis
    using k by (simp add: startswith_def no_values_def getXCutter_def)
qed

section \<open>Arguments\<close>

text \<open>
  For a name that is no accessor, \<open>cookie.do\<close> calls the cutter with the cookie and the
  name only: the outcome is that of the call without arguments.
\<close>

lemma cookie_do_drops_arguments:
  "\<not> startswith op ''set'' \<Longrightarrow> \<not> startswith op ''get'' \<Longrightarrow>
     cookie_do (Suc n) cutter op args vals = CookieCutter_do cutter (cookie_self n cutter) op [] vals"
  by (simp add: cookie_self_def)

text \<open>
  C8: the claim wants the arguments of \<open>cookie.do\<close> handed on to the cutter. The code
  does not: on a cookie of echoCutter, \<open>cookie.do("echo", "hi")\<close> calls \<open>echo(cookie)\<close>,
  which raises TypeError for the missing argument, whereas \<open>CookieCutter.do\<close> given the
  same argument calls \<open>echo(cookie, "hi")\<close> and returns "hi".
\<close>

theorem arguments_not_forwarded:
  "cookie_do (Suc n) echoCutter ''echo'' [PyStr ''hi''] no_values
     = Some (Inl TypeError, no_values) \<and>
   CookieCutter_do echoCutter (cookie_self n echoCutter) ''echo'' [PyStr ''hi''] no_values
     = Some (Inr (PyStr ''hi''), no_values)"
  by (simp add: echoCutter_def echo_def string_eval)

section \<open>The macadamia cookie\<close>

text \<open>
  C9: on a cookie of macadamiaCookieCutter with the store \<open>{"color": "white"}\<close>,
  "contemplate" is found in the helper nutsCookieCutter and returns the sentence with
  "30" in it; with \<open>{"color": "dark"}\<close> it returns the sentence with "100". Three
  nested calls of \<open>cookie.do\<close> take place (contemplate, bake, getColor), so any depth
  from three on gives the result; "bake" alone returns "30" and "100".
\<close>

theorem contemplate_embeds_bake:
  "cookie_do (Suc (Suc (Suc n))) macadamiaCookieCutter ''contemplate'' [] white_values
     = Some (Inr (PyStr ''I am looking at a delicious MacadamiaCookie cookie, baked at 30. Temptation is strong.''),
             white_values) \<and>
   cookie_do (Suc (Suc (Suc n))) macadamiaCookieCutter ''contemplate'' [] dark_values
     = Some (Inr (PyStr ''I am looking at a delicious MacadamiaCookie cookie, baked at 100. Temptation is strong.''),
             dark_values) \<and>
   cookie_do (Suc (Suc n)) macadamiaCookieCutter ''bake'' [] white_values
     = Some (Inr (PyStr ''30''), white_values) \<and>
   cookie_do (Suc (Suc n)) macadamiaCookieCutter ''bake'' [] dark_values
     = Some (Inr (PyStr ''100''), dark_values)"
  by (simp add: macadamiaCookieCutter_def nutsCookieCutter_def contemplate_def bake_macadamia_def
      printCookie_def white_values_def dark_values_def string_eval)

section \<open>Parametric dispatch\<close>

text \<open>
  C7: let the own table of \<open>D\<close> lack "contemplate" and let the helpers of \<open>D\<close> be a
  dict that sends "beachbody" to \<open>C1\<close> and "honest" to \<open>C2\<close>, both with "contemplate"
  in their tables. Then \<open>CookieCutter.do\<close> with the mood "beachbody" gives the outcome
  of the operation of \<open>C1\<close>, with "honest" that of \<open>C2\<close>, and with a mood that is no
  key of the dict it raises KeyError with that mood, the spec's NoSuchModeError.
\<close>

theorem parametric_dispatch:
  "operations_p D ''contemplate'' = None \<Longrightarrow> helpers_p D = Inr d \<Longrightarrow>
   map_of d ''beachbody'' = Some C1 \<Longrightarrow> map_of d ''honest'' = Some C2 \<Longrightarrow>
   operations_p C1 ''contemplate'' = Some f1 \<Longrightarrow> operations_p C2 ''contemplate'' = Some f2 \<Longrightarrow>
     CookieCutter_do_p D cookie ''beachbody'' ''contemplate'' args vals = f1 cookie args vals \<and>
     CookieCutter_do_p D cookie ''honest'' ''contemplate'' args vals = f2 cookie args vals \<and>
     (map_of d mood = None \<longrightarrow>
        CookieCutter_do_p D cookie mood ''contemplate'' args vals
          = Some (Inl (KeyError mood), vals))"
  by (cases D; cases C1; cases C2) simp

theorem parametric_dispatch_witness:
  "operations_p macadamiaCookieCutter_p ''contemplate'' = None \<and>
   helpers_p macadamiaCookieCutter_p
     = Inr [(''beachbody'', beachbodyNutsCookieCutter), (''honest'', honestNutsCookieCutter)] \<and>
   operations_p beachbodyNutsCookieCutter ''contemplate'' = Some contemplate_p \<and>
   operations_p honestNutsCookieCutter ''contemplate'' = Some succumb \<and>
   CookieCutter_do_p macadamiaCookieCutter_p (cookie_self_p 0 macadamiaCookieCutter_p)
       ''beachbody'' ''contemplate'' [] white_values
     = Some (Inr (PyStr ''I am looking at a delicious MacadamiaCookie cookie. Temptation is strong.''),
             white_values) \<and>
   CookieCutter_do_p macadamiaCookieCutter_p (cookie_self_p 0 macadamiaCookieCutter_p)
       ''honest'' ''contemplate'' [] white_values
     = Some (Inr (PyStr ''I was looking at a delicious MacadamiaCookie cookie. Temptation was too strong.''),
             white_values) \<and>
   CookieCutter_do_p macadamiaCookieCutter_p (cookie_self_p 0 macadamiaCookieCutter_p)
       ''grumpy'' ''contemplate'' [] white_values
     = Some (Inl (KeyError ''grumpy''), white_values)"
proof -
  let ?d = "[(''beachbody'', beachbodyNutsCookieCutter), (''honest'', honestNutsCookieCutter)]"
  have h1: "operations_p macadamiaCookieCutter_p ''contemplate'' = None"
    by (simp add: macadamiaCookieCutter_p_def)
  have h2: "helpers_p macadamiaCookieCutter_p = Inr ?d"
    by (simp add: macadamiaCookieCutter_p_def)
  have h3: "map_of ?d ''beachbody'' = Some beachbodyNutsCookieCutter" by simp
  have h4: "map_of ?d ''honest'' = Some honestNutsCookieCutter" by simp
  have h5: "operations_p beachbodyNutsCookieCutter ''contemplate'' = Some contemplate_p"
    by (simp add: beachbodyNutsCookieCutter_def)
  have h6: "operations_p honestNutsCookieCutter ''contemplate'' = Some succumb"
    by (simp add: honestNutsCookieCutter_def)
  have h7: "map_of ?d ''grumpy'' = None" by simp
  have s: "self_str_p (cookie_self_p 0 macadamiaCookieCutter_p) = ''MacadamiaCookie cookie''"
    by (simp add: cookie_self_p_def printCookie_p_def macadamiaCookieCutter_p_def)
  from parametric_dispatch [OF h1 h2 h3 h4 h5 h6,
      of "cookie_self_p 0 macadamiaCookieCutter_p" "[]" white_values "''grumpy''"]
  show ?thesis
    using h1 h2 h5 h6 h7 s by (simp add: contemplate_p_def succumb_def)
qed

text \<open>
  C10: when the own table of a parametric cutter has the operation, \<open>CookieCutter.do\<close>
  gives the outcome of that operation for every mood, the helpers are not subscripted;
  so does \<open>cookie.do\<close>, for a name that is no accessor, which calls the operation
  without arguments.
\<close>

theorem own_operation_ignores_mood:
  "operations_p D op = Some f \<Longrightarrow>
     CookieCutter_do_p D cookie mood op args vals = f cookie args vals \<and>
     (\<not> startswith op ''set'' \<and> \<not> startswith op ''get'' \<longrightarrow>
        cookie_do_p (Suc n) D op mood args vals = f (cookie_self_p n D) [] vals)"
  by (cases D) (simp add: cookie_self_p_def)

theorem own_operation_ignores_mood_witness:
  "operations_p localCutter ''contemplate'' = Some contemplate_p \<and>
   helpers_p localCutter = Inr [(''honest'', honestNutsCookieCutter)] \<and>
   \<not> startswith ''contemplate'' ''set'' \<and> \<not> startswith ''contemplate'' ''get'' \<and>
   cookie_do_p (Suc 0) localCutter ''contemplate'' ''beachbody'' [] no_values
     = Some (Inr (PyStr ''I am looking at a delicious Local cookie. Temptation is strong.''),
             no_values) \<and>
   cookie_do_p (Suc 0) localCutter ''contemplate'' ''honest'' [] no_values
     = Some (Inr (PyStr ''I am looking at a delicious Local cookie. Temptation is strong.''),
             no_values)"
proof -
  have h: "operations_p localCutter ''contemplate'' = Some contemplate_p"
    by (simp add: localCutter_def)
  have g: "helpers_p localCutter = Inr [(''honest'', honestNutsCookieCutter)]"
    by (simp add: localCutter_def)
  have a: "\<not> startswith ''contemplate'' ''set'' \<and> \<not> startswith ''contemplate'' ''get''"
    by (simp add: startswith_def)
  have s: "self_str_p (cookie_self_p 0 localCutter) = ''Local cookie''"
    by (simp add: cookie_self_p_def printCookie_p_def localCutter_def)
  from own_operation_ignores_mood [OF h, where cookie = "cookie_self_p 0 localCutter"
      and mood = "''beachbody''" and args = "[]" and vals = no_values and n = 0]
    own_operation_ignores_mood [OF h, where cookie = "cookie_self_p 0 localCutter"
      and mood = "''honest''" and args = "[]" and vals = no_values and n = 0]
  show ?thesis
    using h g a s by (simp add: contemplate_p_def del: cookie_do_p.simps)
qed

end
